theory Spec2Isabelle
  imports Main "HOL-Library.Sublist"
begin

section \<open>Admin API client (src/lib/api.ts): values, environment and effects\<close>

subsection \<open>JSON values as the client reads them\<close>

text \<open>
  A parsed response body is a JSON value. A property read that yields \<open>undefined\<close> is
  \<open>None\<close>, so every optional field of \<open>ApiResponse\<close> is a \<open>json option\<close>.
  Numbers are the integral ones (counts, page numbers, status flags); an object is the
  list of its own properties.
\<close>

datatype json =
    JNull
  | JBool bool
  | JNumber int
  | JString string
  | JArray "json list"
  | JObject "(string \<times> json) list"

text \<open>
  What a \<open>catch\<close> clause receives: an instance of \<open>Error\<close> with its message, or any
  other thrown value (\<open>error instanceof Error\<close> is false for it).
\<close>

datatype thrown = ErrorObj string | OtherThrown

text \<open>JavaScript truthiness, as used by \<open>||\<close>, \<open>!\<close> and \<open>if\<close>.\<close>

fun truthy :: "json option \<Rightarrow> bool" where
  "truthy None = False"
| "truthy (Some JNull) = False"
| "truthy (Some (JBool b)) = b"
| "truthy (Some (JNumber n)) = (n \<noteq> 0)"
| "truthy (Some (JString s)) = (s \<noteq> [])"
| "truthy (Some (JArray xs)) = True"
| "truthy (Some (JObject kvs)) = True"

definition js_or :: "json option \<Rightarrow> json option \<Rightarrow> json option" where
  "js_or a b = (if truthy a then a else b)"

text \<open>A storage or environment string: \<open>null\<close>/\<open>undefined\<close> and the empty string are falsy.\<close>

fun truthy_str :: "string option \<Rightarrow> bool" where
  "truthy_str None = False"
| "truthy_str (Some s) = (s \<noteq> [])"

definition str_or :: "string option \<Rightarrow> string \<Rightarrow> string" where
  "str_or a b = (case a of Some s \<Rightarrow> (if s \<noteq> [] then s else b) | None \<Rightarrow> b)"

text \<open>
  The message of the TypeError raised by a property read on \<open>null\<close> or \<open>undefined\<close>
  (the wording of V8; the client only passes it on).
\<close>

definition type_error_message :: "string \<Rightarrow> string \<Rightarrow> string" where
  "type_error_message base key =
     ''Cannot read properties of '' @ base @ '' (reading '' @ [CHR 0x27] @ key @ [CHR 0x27] @ '')''"

text \<open>
  \<open>v.key\<close> for the property names this file reads (\<open>message\<close>, \<open>error\<close>, \<open>errors\<close>,
  \<open>data\<close>, \<open>success\<close>, \<open>token\<close>, \<open>admin\<close>, \<open>email\<close>): none of them is a property of a
  string, number, boolean or array, so only an object can hold one; reading from
  \<open>null\<close> or \<open>undefined\<close> throws.
\<close>

fun get_prop :: "json option \<Rightarrow> string \<Rightarrow> thrown + json option" where
  "get_prop None key = Inl (ErrorObj (type_error_message ''undefined'' key))"
| "get_prop (Some JNull) key = Inl (ErrorObj (type_error_message ''null'' key))"
| "get_prop (Some (JObject kvs)) key = Inr (map_of kvs key)"
| "get_prop (Some v) key = Inr None"

text \<open>Optional chaining \<open>v?.key\<close>: \<open>undefined\<close> when \<open>v\<close> is \<open>null\<close> or \<open>undefined\<close>.\<close>

fun opt_prop :: "json option \<Rightarrow> string \<Rightarrow> json option" where
  "opt_prop (Some (JObject kvs)) key = map_of kvs key"
| "opt_prop v key = None"

subsection \<open>Conversion to string (what \<open>localStorage.setItem\<close> and \<open>toString\<close> store)\<close>

fun digits :: "nat \<Rightarrow> string" where
  "digits n = (if n < 10 then [''0123456789'' ! n]
               else digits (n div 10) @ [''0123456789'' ! (n mod 10)])"

declare digits.simps [simp del]

text \<open>
  \<open>Number.prototype.toString\<close> on an integer below \<open>10^21\<close> in magnitude: plain decimal
  digits. Larger and fractional numbers print differently (exponent, fraction); no
  statement below depends on the digits printed.
\<close>

definition number_toString :: "int \<Rightarrow> string" where
  "number_toString n = (if n < 0 then CHR ''-'' # digits (nat (- n)) else digits (nat n))"

fun join_with :: "string \<Rightarrow> string list \<Rightarrow> string" where
  "join_with sep [] = []"
| "join_with sep [x] = x"
| "join_with sep (x # y # ys) = x @ sep @ join_with sep (y # ys)"

fun to_string :: "json option \<Rightarrow> string" where
  "to_string None = ''undefined''"
| "to_string (Some JNull) = ''null''"
| "to_string (Some (JBool b)) = (if b then ''true'' else ''false'')"
| "to_string (Some (JNumber n)) = number_toString n"
| "to_string (Some (JString s)) = s"
| "to_string (Some (JArray xs)) =
     join_with '','' (map (\<lambda>x. if x = JNull then [] else to_string (Some x)) xs)"
| "to_string (Some (JObject kvs)) = ''[object Object]''"

subsection \<open>Parameter objects of the list operations\<close>

datatype sort_order = Asc | Desc

fun sort_order_str :: "sort_order \<Rightarrow> string" where
  "sort_order_str Asc = ''asc''"
| "sort_order_str Desc = ''desc''"

record list_params =
  page :: "int option"
  limit :: "int option"
  status :: "string option"
  search :: "string option"
  sortBy :: "string option"
  sortOrder :: "sort_order option"

record product_params = list_params +
  category :: "string option"

record order_params = list_params +
  startDate :: "string option"
  endDate :: "string option"

datatype order_status = Confirmed | Processing | Shipped | Delivered | Cancelled

fun order_status_str :: "order_status \<Rightarrow> string" where
  "order_status_str Confirmed = ''confirmed''"
| "order_status_str Processing = ''processing''"
| "order_status_str Shipped = ''shipped''"
| "order_status_str Delivered = ''delivered''"
| "order_status_str Cancelled = ''cancelled''"

subsection \<open>Build environment, requests and responses\<close>

record env =
  PROD_env :: bool
  VITE_API_URL :: "string option"

datatype blob = File string string

datatype req_body =
    NoBody
  | JsonBody json
  | FormData "(string \<times> blob) list"

record request =
  url :: string
  http_method :: "string option"
  headers :: "(string \<times> string) list"
  body :: req_body

text \<open>
  A response carries its status and what \<open>response.json()\<close> does with its body: resolve
  to the parsed value, or reject with the parser's SyntaxError (its message).
\<close>

datatype parsed = Unparseable string | Parsed json

record response =
  status :: nat
  json_body :: parsed

text \<open>\<open>response.ok\<close>: the status is in the range 200 to 299.\<close>

definition ok :: "response \<Rightarrow> bool" where
  "ok r = (200 \<le> response.status r \<and> response.status r \<le> 299)"

text \<open>What \<open>fetch\<close> settles to: a rejection (no response obtained) or a response.\<close>

datatype fetch_result = Rejected thrown | Responded response

type_synonym net = "request \<Rightarrow> fetch_result"

subsection \<open>The browser state the client touches, and computations over it\<close>

record world =
  localStorage :: "string \<rightharpoonup> string"
  location_href :: string
  requests :: "request list"

text \<open>
  A computation may throw and changes the world either way: effects performed before a
  throw stay performed.
\<close>

type_synonym 'a js = "world \<Rightarrow> (thrown + 'a) \<times> world"

definition return :: "'a \<Rightarrow> 'a js" where
  "return a = (\<lambda>w. (Inr a, w))"

definition throw :: "thrown \<Rightarrow> 'a js" where
  "throw e = (\<lambda>w. (Inl e, w))"

definition lift :: "thrown + 'a \<Rightarrow> 'a js" where
  "lift r = (\<lambda>w. (r, w))"

definition bind :: "'a js \<Rightarrow> ('a \<Rightarrow> 'b js) \<Rightarrow> 'b js" where
  "bind m f = (\<lambda>w. case m w of (Inl e, w') \<Rightarrow> (Inl e, w') | (Inr a, w') \<Rightarrow> f a w')"

definition try_catch :: "'a js \<Rightarrow> (thrown \<Rightarrow> 'a js) \<Rightarrow> 'a js" where
  "try_catch m h = (\<lambda>w. case m w of (Inl e, w') \<Rightarrow> h e w' | (Inr a, w') \<Rightarrow> (Inr a, w'))"

definition getItem :: "string \<Rightarrow> string option js" where
  "getItem key = (\<lambda>w. (Inr (localStorage w key), w))"

definition setItem :: "string \<Rightarrow> string \<Rightarrow> unit js" where
  "setItem key v = (\<lambda>w. (Inr (), w\<lparr>localStorage := (localStorage w)(key \<mapsto> v)\<rparr>))"

definition removeItem :: "string \<Rightarrow> unit js" where
  "removeItem key = (\<lambda>w. (Inr (), w\<lparr>localStorage := (localStorage w)(key := None)\<rparr>))"

definition set_location_href :: "string \<Rightarrow> unit js" where
  "set_location_href target = (\<lambda>w. (Inr (), w\<lparr>location_href := target\<rparr>))"

definition fetch :: "net \<Rightarrow> request \<Rightarrow> response js" where
  "fetch net req = (\<lambda>w.
     let w' = w\<lparr>requests := requests w @ [req]\<rparr>
     in case net req of Rejected e \<Rightarrow> (Inl e, w') | Responded r \<Rightarrow> (Inr r, w'))"

definition response_json :: "response \<Rightarrow> json js" where
  "response_json r = (case json_body r of
       Unparseable msg \<Rightarrow> throw (ErrorObj msg)
     | Parsed v \<Rightarrow> return v)"

subsection \<open>The response envelope and the request executor\<close>

record envelope =
  success :: bool
  data :: "json option"
  message :: "json option"
  error :: "json option"
  errors :: "json option"

definition API_URL :: "env \<Rightarrow> string" where
  "API_URL e = (if PROD_env e then str_or (VITE_API_URL e) []
                else str_or (VITE_API_URL e) ''http://localhost:3000'')"

definition getAdminToken :: "string option js" where
  "getAdminToken = getItem ''adminToken''"

record options =
  opt_method :: "string option"
  opt_headers :: "(string \<times> string) list"
  opt_body :: req_body

definition no_options :: options where
  "no_options = \<lparr>opt_method = None, opt_headers = [], opt_body = NoBody\<rparr>"

text \<open>Writing a header into a header object: a later write of a name replaces the earlier one.\<close>

definition put_header :: "string \<Rightarrow> string \<Rightarrow> (string \<times> string) list \<Rightarrow> (string \<times> string) list" where
  "put_header k v hs = filter (\<lambda>p. fst p \<noteq> k) hs @ [(k, v)]"

definition catch_envelope :: "thrown \<Rightarrow> envelope" where
  "catch_envelope e =
     \<lparr>success = False, data = None,
      message = Some (JString (case e of ErrorObj m \<Rightarrow> m | OtherThrown \<Rightarrow> ''Network error'')),
      error = Some (JString ''Network error''), errors = None\<rparr>"

definition clear_session :: "unit js" where
  "clear_session =
     bind (removeItem ''adminToken'') (\<lambda>_.
     bind (removeItem ''adminEmail'') (\<lambda>_.
     set_location_href ''/login''))"

definition apiRequest :: "env \<Rightarrow> net \<Rightarrow> string \<Rightarrow> options \<Rightarrow> envelope js" where
  "apiRequest e net endpoint opts =
     try_catch
       (bind getAdminToken (\<lambda>token.
        let hs0 = foldl (\<lambda>hs (k, v). put_header k v hs)
                    [(''Content-Type'', ''application/json'')] (opt_headers opts);
            hs = (if truthy_str token
                  then put_header ''Authorization'' (''Bearer '' @ the token) hs0 else hs0)
        in
        bind (fetch net \<lparr>url = API_URL e @ endpoint, http_method = opt_method opts,
                          headers = hs, body = opt_body opts\<rparr>) (\<lambda>response.
        bind (response_json response) (\<lambda>d.
          if \<not> ok response then
            bind (if response.status response = 401 then clear_session else return ()) (\<lambda>_.
            bind (lift (get_prop (Some d) ''message'')) (\<lambda>m.
            bind (lift (get_prop (Some d) ''error'')) (\<lambda>er.
            bind (lift (get_prop (Some d) ''errors'')) (\<lambda>ers.
            return \<lparr>success = False, data = None,
                    message = js_or (js_or m er) (Some (JString ''Request failed'')),
                    error = er, errors = ers\<rparr>))))
          else
            bind (lift (get_prop (Some d) ''data'')) (\<lambda>dd.
            bind (lift (get_prop (Some d) ''message'')) (\<lambda>m.
            return \<lparr>success = True, data = js_or dd (Some d), message = m,
                    error = None, errors = None\<rparr>))))))
       (\<lambda>err. return (catch_envelope err))"

subsection \<open>Admin Auth API\<close>

definition login_failed :: "json \<Rightarrow> envelope js" where
  "login_failed d =
     bind (lift (get_prop (Some d) ''message'')) (\<lambda>m.
     bind (lift (get_prop (Some d) ''error'')) (\<lambda>er.
     return \<lparr>success = False, data = None,
             message = js_or m (Some (JString ''Login failed'')),
             error = er, errors = None\<rparr>))"

definition login_succeeded :: "json \<Rightarrow> envelope js" where
  "login_succeeded d =
     bind (lift (get_prop (Some d) ''data'')) (\<lambda>dd.
     bind (if truthy (opt_prop dd ''token'') then
             bind (lift (get_prop dd ''token'')) (\<lambda>tok.
             bind (setItem ''adminToken'' (to_string tok)) (\<lambda>_.
             bind (lift (get_prop dd ''admin'')) (\<lambda>adm.
             bind (lift (get_prop adm ''email'')) (\<lambda>em.
             setItem ''adminEmail'' (to_string em)))))
           else return ()) (\<lambda>_.
     bind (lift (get_prop (Some d) ''message'')) (\<lambda>m.
     return \<lparr>success = True, data = dd, message = m, error = None, errors = None\<rparr>)))"

definition login :: "env \<Rightarrow> net \<Rightarrow> string \<Rightarrow> string \<Rightarrow> envelope js" where
  "login e net email password =
     try_catch
       (let API_URL = str_or (VITE_API_URL e) ''http://localhost:3000'' in
        bind (fetch net \<lparr>url = API_URL @ ''/api/admin/auth/login'', http_method = Some ''POST'',
                          headers = [(''Content-Type'', ''application/json'')],
                          body = JsonBody (JObject [(''email'', JString email),
                                                    (''password'', JString password)])\<rparr>) (\<lambda>res.
        bind (response_json res) (\<lambda>d.
          if \<not> ok res then login_failed d
          else
            bind (lift (get_prop (Some d) ''success'')) (\<lambda>s.
            if \<not> truthy s then login_failed d else login_succeeded d))))
       (\<lambda>err. return (catch_envelope err))"

definition me :: "env \<Rightarrow> net \<Rightarrow> envelope js" where
  "me e net = apiRequest e net ''/api/admin/auth/me'' no_options"

definition logout :: "envelope js" where
  "logout =
     bind (removeItem ''adminToken'') (\<lambda>_.
     bind (removeItem ''adminEmail'') (\<lambda>_.
     return \<lparr>success = True, data = None, message = None, error = None, errors = None\<rparr>))"

definition isAuthenticated :: "world \<Rightarrow> bool" where
  "isAuthenticated w = truthy_str (localStorage w ''adminToken'')"

subsection \<open>Query strings (\<open>URLSearchParams\<close>) and path segments\<close>

text \<open>
  The application/x-www-form-urlencoded serializer leaves ASCII letters, digits and
  \<open>* - . _\<close> as they are, writes a space as \<open>+\<close> and every other byte as \<open>%\<close> and two
  upper-case hexadecimal digits. Strings are the UTF-8 bytes of the text.
\<close>

definition alnum :: "char \<Rightarrow> bool" where
  "alnum c = (let n = (of_char c :: nat)
              in (48 \<le> n \<and> n \<le> 57) \<or> (65 \<le> n \<and> n \<le> 90) \<or> (97 \<le> n \<and> n \<le> 122))"

definition hex_digit :: "nat \<Rightarrow> char" where
  "hex_digit n = ''0123456789ABCDEF'' ! n"

definition percent_encode :: "char \<Rightarrow> string" where
  "percent_encode c = [CHR ''%'', hex_digit (of_char c div 16), hex_digit (of_char c mod 16)]"

definition urlencode_byte :: "char \<Rightarrow> string" where
  "urlencode_byte c =
     (if c = CHR '' '' then ''+''
      else if alnum c \<or> c \<in> set ''*-._'' then [c]
      else percent_encode c)"

definition urlencode :: "string \<Rightarrow> string" where
  "urlencode s = concat (map urlencode_byte s)"

fun URLSearchParams_toString :: "(string \<times> string) list \<Rightarrow> string" where
  "URLSearchParams_toString [] = []"
| "URLSearchParams_toString [(k, v)] = urlencode k @ ''='' @ urlencode v"
| "URLSearchParams_toString ((k, v) # p # ps) =
     urlencode k @ ''='' @ urlencode v @ ''&'' @ URLSearchParams_toString (p # ps)"

text \<open>\<open>if (params?.k) searchParams.append(k, params.k.toString())\<close> for a number field.\<close>

definition append_num :: "string \<Rightarrow> int option \<Rightarrow> (string \<times> string) list \<Rightarrow> (string \<times> string) list" where
  "append_num k v sp = (case v of
       Some n \<Rightarrow> (if n \<noteq> 0 then sp @ [(k, number_toString n)] else sp)
     | None \<Rightarrow> sp)"

text \<open>\<open>if (params?.k) searchParams.append(k, params.k)\<close> for a string field.\<close>

definition append_str :: "string \<Rightarrow> string option \<Rightarrow> (string \<times> string) list \<Rightarrow> (string \<times> string) list" where
  "append_str k v sp = (case v of
       Some s \<Rightarrow> (if s \<noteq> [] then sp @ [(k, s)] else sp)
     | None \<Rightarrow> sp)"

text \<open>
  \<open>encodeURIComponent\<close> works on the UTF-16 code units of its argument (numbers below
  \<open>2^16\<close>). Letters, digits and \<open>- _ . ! ~ * ' ( )\<close> stay; any other code point is written
  as the percent-escaped octets of its UTF-8 form; a surrogate that is not half of a pair
  makes it throw URIError.
\<close>

type_synonym utf16 = "nat list"

definition high_surrogate :: "nat \<Rightarrow> bool" where
  "high_surrogate c = (0xD800 \<le> c \<and> c \<le> 0xDBFF)"

definition low_surrogate :: "nat \<Rightarrow> bool" where
  "low_surrogate c = (0xDC00 \<le> c \<and> c \<le> 0xDFFF)"

definition uri_unescaped_chars :: string where
  "uri_unescaped_chars =
     ''ABCDEFGHIJKLMNOPQRSTUVWXYZabcdefghijklmnopqrstuvwxyz0123456789-_.!~*()'' @ [CHR 0x27]"

text \<open>The unescaped character whose code is the code unit \<open>c\<close>, if there is one.\<close>

definition uri_unescaped :: "nat \<Rightarrow> char option" where
  "uri_unescaped c = find (\<lambda>ch. of_char ch = c) uri_unescaped_chars"

definition utf8 :: "nat \<Rightarrow> nat list" where
  "utf8 cp =
     (if cp < 0x80 then [cp]
      else if cp < 0x800 then [0xC0 + cp div 64, 0x80 + cp mod 64]
      else if cp < 0x10000 then [0xE0 + cp div 4096, 0x80 + (cp div 64) mod 64, 0x80 + cp mod 64]
      else [0xF0 + cp div 262144, 0x80 + (cp div 4096) mod 64, 0x80 + (cp div 64) mod 64,
            0x80 + cp mod 64])"

definition percent_octet :: "nat \<Rightarrow> string" where
  "percent_octet n = [CHR ''%'', hex_digit (n div 16), hex_digit (n mod 16)]"

definition percent_utf8 :: "nat \<Rightarrow> string" where
  "percent_utf8 cp = concat (map percent_octet (utf8 cp))"

definition URIError :: thrown where
  "URIError = ErrorObj ''URI malformed''"

definition prepend :: "string \<Rightarrow> thrown + string \<Rightarrow> thrown + string" where
  "prepend s r = (case r of Inl err \<Rightarrow> Inl err | Inr t \<Rightarrow> Inr (s @ t))"

fun encodeURIComponent :: "utf16 \<Rightarrow> thrown + string" where
  "encodeURIComponent [] = Inr []"
| "encodeURIComponent (c # cs) =
     (case uri_unescaped c of
        Some ch \<Rightarrow> prepend [ch] (encodeURIComponent cs)
      | None \<Rightarrow>
          if low_surrogate c then Inl URIError
          else if high_surrogate c then
            (case cs of
               [] \<Rightarrow> Inl URIError
             | d # ds \<Rightarrow>
                 if low_surrogate d
                 then prepend (percent_utf8 ((c - 0xD800) * 0x400 + (d - 0xDC00) + 0x10000))
                        (encodeURIComponent ds)
                 else Inl URIError)
          else prepend (percent_utf8 c) (encodeURIComponent cs))"

text \<open>The strings \<open>encodeURIComponent\<close> accepts: every surrogate is half of a pair.\<close>

fun paired_surrogates :: "utf16 \<Rightarrow> bool" where
  "paired_surrogates [] = True"
| "paired_surrogates (c # cs) =
     (if high_surrogate c then
        (case cs of [] \<Rightarrow> False | d # ds \<Rightarrow> low_surrogate d \<and> paired_surrogates ds)
      else \<not> low_surrogate c \<and> paired_surrogates cs)"

subsection \<open>Products API\<close>

definition getProducts_searchParams :: "product_params option \<Rightarrow> (string \<times> string) list" where
  "getProducts_searchParams params =
     (let searchParams = [];
          searchParams = append_num ''page'' (Option.bind params page) searchParams;
          searchParams = append_num ''limit'' (Option.bind params limit) searchParams;
          searchParams = append_str ''search'' (Option.bind params search) searchParams;
          searchParams = append_str ''category'' (Option.bind params category) searchParams;
          searchParams = append_str ''status'' (Option.bind params list_params.status) searchParams;
          searchParams = append_str ''sortBy'' (Option.bind params sortBy) searchParams;
          searchParams = append_str ''sortOrder''
              (map_option sort_order_str (Option.bind params sortOrder)) searchParams
      in searchParams)"

definition getProducts_endpoint :: "product_params option \<Rightarrow> string" where
  "getProducts_endpoint params =
     (let queryString = URLSearchParams_toString (getProducts_searchParams params)
      in ''/api/admin/products'' @ (if queryString \<noteq> [] then ''?'' @ queryString else []))"

definition getProducts :: "env \<Rightarrow> net \<Rightarrow> product_params option \<Rightarrow> envelope js" where
  "getProducts e net params = apiRequest e net (getProducts_endpoint params) no_options"

definition getProduct :: "env \<Rightarrow> net \<Rightarrow> string \<Rightarrow> envelope js" where
  "getProduct e net ident = apiRequest e net (''/api/admin/products/'' @ ident) no_options"

definition createProduct :: "env \<Rightarrow> net \<Rightarrow> json \<Rightarrow> envelope js" where
  "createProduct e net d =
     apiRequest e net ''/api/admin/products''
       (no_options\<lparr>opt_method := Some ''POST'', opt_body := JsonBody d\<rparr>)"

definition updateProduct :: "env \<Rightarrow> net \<Rightarrow> string \<Rightarrow> json \<Rightarrow> envelope js" where
  "updateProduct e net ident d =
     apiRequest e net (''/api/admin/products/'' @ ident)
       (no_options\<lparr>opt_method := Some ''PUT'', opt_body := JsonBody d\<rparr>)"

definition updatePricing :: "env \<Rightarrow> net \<Rightarrow> string \<Rightarrow> json \<Rightarrow> envelope js" where
  "updatePricing e net ident d =
     apiRequest e net (''/api/admin/products/'' @ ident @ ''/pricing'')
       (no_options\<lparr>opt_method := Some ''PATCH'', opt_body := JsonBody d\<rparr>)"

definition deleteProduct :: "env \<Rightarrow> net \<Rightarrow> string \<Rightarrow> envelope js" where
  "deleteProduct e net ident =
     apiRequest e net (''/api/admin/products/'' @ ident)
       (no_options\<lparr>opt_method := Some ''DELETE''\<rparr>)"

definition getCategories :: "env \<Rightarrow> net \<Rightarrow> envelope js" where
  "getCategories e net = apiRequest e net ''/api/admin/products/categories/list'' no_options"

subsection \<open>Upload API\<close>

text \<open>
  \<open>uploadImage\<close> and \<open>uploadImages\<close> have the same body in the source, up to the path and
  the form data; \<open>upload\<close> is that body.
\<close>

definition upload :: "env \<Rightarrow> net \<Rightarrow> string \<Rightarrow> (string \<times> blob) list \<Rightarrow> envelope js" where
  "upload e net path formData =
     try_catch
       (bind (getItem ''adminToken'') (\<lambda>token.
        bind (fetch net \<lparr>url = API_URL e @ path, http_method = Some ''POST'',
                          headers = (if truthy_str token
                                     then [(''Authorization'', ''Bearer '' @ the token)] else []),
                          body = FormData formData\<rparr>) (\<lambda>response.
        bind (response_json response) (\<lambda>d.
          if \<not> ok response then
            bind (if response.status response = 401 then clear_session else return ()) (\<lambda>_.
            bind (lift (get_prop (Some d) ''message'')) (\<lambda>m.
            bind (lift (get_prop (Some d) ''error'')) (\<lambda>er.
            return \<lparr>success = False, data = None,
                    message = js_or m (Some (JString ''Upload failed'')),
                    error = er, errors = None\<rparr>)))
          else
            bind (lift (get_prop (Some d) ''data'')) (\<lambda>dd.
            bind (lift (get_prop (Some d) ''message'')) (\<lambda>m.
            return \<lparr>success = True, data = dd, message = m,
                    error = None, errors = None\<rparr>))))))
       (\<lambda>err. return (catch_envelope err))"

definition uploadImage :: "env \<Rightarrow> net \<Rightarrow> blob \<Rightarrow> envelope js" where
  "uploadImage e net f = upload e net ''/api/admin/upload/image'' [(''image'', f)]"

definition uploadImages :: "env \<Rightarrow> net \<Rightarrow> blob list \<Rightarrow> envelope js" where
  "uploadImages e net files =
     upload e net ''/api/admin/upload/images'' (map (\<lambda>f. (''images'', f)) files)"

text \<open>
  The argument of \<open>apiRequest\<close> is evaluated before the call, outside its \<open>try\<close>: a
  URIError thrown by \<open>encodeURIComponent\<close> rejects the promise of \<open>deleteImage\<close> itself.
\<close>

definition deleteImage :: "env \<Rightarrow> net \<Rightarrow> utf16 \<Rightarrow> envelope js" where
  "deleteImage e net publicId =
     bind (lift (encodeURIComponent publicId)) (\<lambda>encoded.
     apiRequest e net (''/api/admin/upload/image/'' @ encoded)
       (no_options\<lparr>opt_method := Some ''DELETE''\<rparr>))"

subsection \<open>Orders API\<close>

definition getOrders_searchParams :: "order_params option \<Rightarrow> (string \<times> string) list" where
  "getOrders_searchParams params =
     (let searchParams = [];
          searchParams = append_num ''page'' (Option.bind params page) searchParams;
          searchParams = append_num ''limit'' (Option.bind params limit) searchParams;
          searchParams = append_str ''status'' (Option.bind params list_params.status) searchParams;
          searchParams = append_str ''search'' (Option.bind params search) searchParams;
          searchParams = append_str ''sortBy'' (Option.bind params sortBy) searchParams;
          searchParams = append_str ''sortOrder''
              (map_option sort_order_str (Option.bind params sortOrder)) searchParams;
          searchParams = append_str ''startDate'' (Option.bind params startDate) searchParams;
          searchParams = append_str ''endDate'' (Option.bind params endDate) searchParams
      in searchParams)"

definition getOrders_endpoint :: "order_params option \<Rightarrow> string" where
  "getOrders_endpoint params =
     (let queryString = URLSearchParams_toString (getOrders_searchParams params)
      in ''/api/admin/orders'' @ (if queryString \<noteq> [] then ''?'' @ queryString else []))"

definition getOrders :: "env \<Rightarrow> net \<Rightarrow> order_params option \<Rightarrow> envelope js" where
  "getOrders e net params = apiRequest e net (getOrders_endpoint params) no_options"

definition getStats :: "env \<Rightarrow> net \<Rightarrow> envelope js" where
  "getStats e net = apiRequest e net ''/api/admin/orders/stats'' no_options"

definition getOrder :: "env \<Rightarrow> net \<Rightarrow> string \<Rightarrow> envelope js" where
  "getOrder e net ident = apiRequest e net (''/api/admin/orders/'' @ ident) no_options"

text \<open>\<open>JSON.stringify({ status, tracking })\<close> leaves out a \<open>tracking\<close> that is \<open>undefined\<close>.\<close>

definition updateStatus :: "env \<Rightarrow> net \<Rightarrow> string \<Rightarrow> order_status \<Rightarrow> json option \<Rightarrow> envelope js" where
  "updateStatus e net ident st tracking =
     apiRequest e net (''/api/admin/orders/'' @ ident @ ''/status'')
       (no_options\<lparr>opt_method := Some ''PATCH'',
                    opt_body := JsonBody (JObject ((''status'', JString (order_status_str st)) #
                      (case tracking of None \<Rightarrow> [] | Some t \<Rightarrow> [(''tracking'', t)])))\<rparr>)"

definition getUserOrders :: "env \<Rightarrow> net \<Rightarrow> string \<Rightarrow> envelope js" where
  "getUserOrders e net userId = apiRequest e net (''/api/admin/orders/user/'' @ userId) no_options"

subsection \<open>Every operation of the client\<close>

datatype operation =
    Login string string
  | Me
  | Logout
  | GetProducts "product_params option"
  | GetProduct string
  | CreateProduct json
  | UpdateProduct string json
  | UpdatePricing string json
  | DeleteProduct string
  | GetCategories
  | UploadImage blob
  | UploadImages "blob list"
  | DeleteImage utf16
  | GetOrders "order_params option"
  | GetStats
  | GetOrder string
  | UpdateStatus string order_status "json option"
  | GetUserOrders string

fun call :: "env \<Rightarrow> net \<Rightarrow> operation \<Rightarrow> envelope js" where
  "call e net (Login email password) = login e net email password"
| "call e net Me = me e net"
| "call e net Logout = logout"
| "call e net (GetProducts params) = getProducts e net params"
| "call e net (GetProduct ident) = getProduct e net ident"
| "call e net (CreateProduct d) = createProduct e net d"
| "call e net (UpdateProduct ident d) = updateProduct e net ident d"
| "call e net (UpdatePricing ident d) = updatePricing e net ident d"
| "call e net (DeleteProduct ident) = deleteProduct e net ident"
| "call e net GetCategories = getCategories e net"
| "call e net (UploadImage f) = uploadImage e net f"
| "call e net (UploadImages files) = uploadImages e net files"
| "call e net (DeleteImage publicId) = deleteImage e net publicId"
| "call e net (GetOrders params) = getOrders e net params"
| "call e net GetStats = getStats e net"
| "call e net (GetOrder ident) = getOrder e net ident"
| "call e net (UpdateStatus ident st tracking) = updateStatus e net ident st tracking"
| "call e net (GetUserOrders userId) = getUserOrders e net userId"

section \<open>Envelope shapes, operations routed through the executor, sample inputs\<close>

text \<open>
  The two shapes of the specification's response envelope, and the shape every call
  resolves to: a success without error fields whose data satisfies \<open>payload\<close>, or a
  failure with a message and no data.
\<close>

definition via_executor :: "operation \<Rightarrow> bool" where
  "via_executor op = (case op of Login _ _ \<Rightarrow> False | Logout \<Rightarrow> False
      | UploadImage _ \<Rightarrow> False | UploadImages _ \<Rightarrow> False | _ \<Rightarrow> True)"

definition success_with_data :: "envelope \<Rightarrow> bool" where
  "success_with_data r = (success r \<and> data r \<noteq> None)"

definition failure_with_message :: "envelope \<Rightarrow> bool" where
  "failure_with_message r = (\<not> success r \<and> message r \<noteq> None)"

definition well_formed :: "(json option \<Rightarrow> bool) \<Rightarrow> envelope \<Rightarrow> bool" where
  "well_formed payload r =
     (if success r then error r = None \<and> errors r = None \<and> payload (data r)
      else message r \<noteq> None \<and> data r = None)"

text \<open>
  The one place where an operation can throw before it reaches a \<open>try\<close>: the identifier
  of \<open>deleteImage\<close> has to be one that \<open>encodeURIComponent\<close> accepts.
\<close>

fun arguments_encodable :: "operation \<Rightarrow> bool" where
  "arguments_encodable (DeleteImage publicId) = paired_surrogates publicId"
| "arguments_encodable op = True"

definition env_production :: env where
  "env_production = \<lparr>PROD_env = True, VITE_API_URL = None\<rparr>"

definition signed_in :: world where
  "signed_in = \<lparr>localStorage = [''adminToken'' \<mapsto> ''t0'', ''adminEmail'' \<mapsto> ''admin@example.com''],
                 location_href = ''/dashboard'', requests = []\<rparr>"

definition signed_out :: world where
  "signed_out = \<lparr>localStorage = Map.empty, location_href = ''/login'', requests = []\<rparr>"

definition empty_token :: world where
  "empty_token = \<lparr>localStorage = [''adminToken'' \<mapsto> []], location_href = ''/login'', requests = []\<rparr>"

definition offline :: net where
  "offline = (\<lambda>_. Rejected (ErrorObj ''Failed to fetch''))"

definition replies :: "nat \<Rightarrow> parsed \<Rightarrow> net" where
  "replies code b = (\<lambda>_. Responded \<lparr>status = code, json_body = b\<rparr>)"

text \<open>Login replies: a full one, one whose data has a token but no admin, one without data.\<close>

definition login_reply :: net where
  "login_reply =
     replies 200 (Parsed (JObject [(''success'', JBool True),
       (''data'', JObject [(''token'', JString ''abc''),
          (''admin'', JObject [(''id'', JString ''1''), (''email'', JString ''admin@example.com''),
                               (''role'', JString ''admin'')])])]))"

definition token_only_reply :: net where
  "token_only_reply =
     replies 200 (Parsed (JObject [(''success'', JBool True),
                                   (''data'', JObject [(''token'', JString ''abc'')])]))"

definition tokenless_reply :: net where
  "tokenless_reply = replies 200 (Parsed (JObject [(''success'', JBool True)]))"


section \<open>The three fetching bodies, outcome by outcome\<close>

lemmas js_defs = return_def throw_def lift_def bind_def try_catch_def getItem_def setItem_def
  removeItem_def set_location_href_def fetch_def response_json_def clear_session_def
  getAdminToken_def

lemma get_prop_Some: "d \<noteq> JNull \<Longrightarrow> get_prop (Some d) k = Inr (opt_prop (Some d) k)"
  by (cases d) auto

lemma js_or_Some: "b \<noteq> None \<Longrightarrow> js_or a b \<noteq> None"
  by (cases a) (auto simp: js_or_def)

lemma js_or_Some_ex: "\<exists>y. js_or a (Some b) = Some y"
  by (cases a) (auto simp: js_or_def)

lemma well_formed_mono:
  "well_formed P r \<Longrightarrow> (\<And>d. P d \<Longrightarrow> Q d) \<Longrightarrow> well_formed Q r"
  by (auto simp: well_formed_def)

lemma well_formed_catch: "well_formed P (catch_envelope t)"
  by (simp add: well_formed_def catch_envelope_def)

lemma apiRequest_one_fetch:
  "\<exists>req. apiRequest e net endpoint opts w = apiRequest e (\<lambda>_. net req) endpoint opts w"
  by (rule exI[of _ "\<lparr>url = API_URL e @ endpoint, http_method = opt_method opts, 
      headers = (let hs0 = foldl (\<lambda>hs (k, v). put_header k v hs)
                    [(''Content-Type'', ''application/json'')] (opt_headers opts) in 
                 if truthy_str (localStorage w ''adminToken'')
                  then put_header ''Authorization'' (''Bearer '' @ the (localStorage w ''adminToken'')) hs0 else hs0),
      body = opt_body opts\<rparr>"])
     (simp add: apiRequest_def js_defs Let_def)

lemma upload_one_fetch:
  "\<exists>req. upload e net path fd w = upload e (\<lambda>_. net req) path fd w"
  by (rule exI[of _ "\<lparr>url = API_URL e @ path, http_method = Some ''POST'',
                          headers = (if truthy_str (localStorage w ''adminToken'')
                                     then [(''Authorization'', ''Bearer '' @ the (localStorage w ''adminToken''))] else []),
                          body = FormData fd\<rparr>"])
     (simp add: upload_def js_defs Let_def)

lemma login_one_fetch:
  "\<exists>req. login e net email password w = login e (\<lambda>_. net req) email password w"
  by (rule exI[of _ "\<lparr>url = str_or (VITE_API_URL e) ''http://localhost:3000'' @ ''/api/admin/auth/login'', http_method = Some ''POST'',
                          headers = [(''Content-Type'', ''application/json'')],
                          body = JsonBody (JObject [(''email'', JString email),
                                                    (''password'', JString password)])\<rparr>"])
     (simp add: login_def js_defs Let_def)

text \<open>The executor, outcome by outcome.\<close>

lemma apiRequest_rejected:
  "fst (apiRequest e (\<lambda>_. Rejected t) endpoint opts w) = Inr (catch_envelope t)"
  "localStorage (snd (apiRequest e (\<lambda>_. Rejected t) endpoint opts w)) = localStorage w"
  "location_href (snd (apiRequest e (\<lambda>_. Rejected t) endpoint opts w)) = location_href w"
  by (simp_all add: apiRequest_def js_defs Let_def)

lemma apiRequest_unparseable:
  assumes "json_body r = Unparseable msg"
  shows "fst (apiRequest e (\<lambda>_. Responded r) endpoint opts w) = Inr (catch_envelope (ErrorObj msg))"
    and "localStorage (snd (apiRequest e (\<lambda>_. Responded r) endpoint opts w)) = localStorage w"
    and "location_href (snd (apiRequest e (\<lambda>_. Responded r) endpoint opts w)) = location_href w"
  using assms by (simp_all add: apiRequest_def js_defs Let_def)

lemma apiRequest_null:
  assumes "json_body r = Parsed JNull"
  shows "fst (apiRequest e (\<lambda>_. Responded r) endpoint opts w) =
           Inr (catch_envelope (ErrorObj (type_error_message ''null''
                  (if ok r then ''data'' else ''message''))))"
    and "localStorage (snd (apiRequest e (\<lambda>_. Responded r) endpoint opts w)) =
           (if \<not> ok r \<and> response.status r = 401
            then (localStorage w)(''adminToken'' := None, ''adminEmail'' := None)
            else localStorage w)"
    and "location_href (snd (apiRequest e (\<lambda>_. Responded r) endpoint opts w)) =
           (if \<not> ok r \<and> response.status r = 401 then ''/login'' else location_href w)"
  using assms by (simp_all add: apiRequest_def js_defs Let_def)

lemma apiRequest_failed:
  assumes "json_body r = Parsed d" "d \<noteq> JNull" "\<not> ok r"
  shows "fst (apiRequest e (\<lambda>_. Responded r) endpoint opts w) =
           Inr \<lparr>success = False, data = None,
                message = js_or (js_or (opt_prop (Some d) ''message'') (opt_prop (Some d) ''error''))
                            (Some (JString ''Request failed'')),
                error = opt_prop (Some d) ''error'', errors = opt_prop (Some d) ''errors''\<rparr>"
    and "localStorage (snd (apiRequest e (\<lambda>_. Responded r) endpoint opts w)) =
           (if response.status r = 401
            then (localStorage w)(''adminToken'' := None, ''adminEmail'' := None)
            else localStorage w)"
    and "location_href (snd (apiRequest e (\<lambda>_. Responded r) endpoint opts w)) =
           (if response.status r = 401 then ''/login'' else location_href w)"
  using assms by (simp_all add: apiRequest_def js_defs Let_def get_prop_Some)

lemma apiRequest_ok:
  assumes "json_body r = Parsed d" "d \<noteq> JNull" "ok r"
  shows "fst (apiRequest e (\<lambda>_. Responded r) endpoint opts w) =
           Inr \<lparr>success = True, data = js_or (opt_prop (Some d) ''data'') (Some d),
                message = opt_prop (Some d) ''message'', error = None, errors = None\<rparr>"
    and "localStorage (snd (apiRequest e (\<lambda>_. Responded r) endpoint opts w)) = localStorage w"
    and "location_href (snd (apiRequest e (\<lambda>_. Responded r) endpoint opts w)) = location_href w"
  using assms by (simp_all add: apiRequest_def js_defs Let_def get_prop_Some)

lemma apiRequest_fixed_net_resolves:
  "\<exists>r. fst (apiRequest e (\<lambda>_. x) endpoint opts w) = Inr r \<and> well_formed (\<lambda>d. d \<noteq> None) r"
proof (cases x)
  case (Rejected t)
  then show ?thesis by (simp add: apiRequest_rejected well_formed_catch)
next
  case (Responded r)
  show ?thesis
  proof (cases "json_body r")
    case (Unparseable msg)
    with Responded show ?thesis by (simp add: apiRequest_unparseable well_formed_catch)
  next
    case (Parsed d)
    show ?thesis
    proof (cases "d = JNull")
      case True
      with Parsed Responded show ?thesis by (simp add: apiRequest_null well_formed_catch)
    next
      case False
      with Parsed Responded show ?thesis
        by (cases "ok r")
           (simp_all add: apiRequest_failed apiRequest_ok well_formed_def js_or_Some js_or_Some_ex)
    qed
  qed
qed

lemma apiRequest_resolves:
  "\<exists>r. fst (apiRequest e net endpoint opts w) = Inr r \<and> well_formed (\<lambda>d. d \<noteq> None) r"
proof -
  obtain req where "apiRequest e net endpoint opts w = apiRequest e (\<lambda>_. net req) endpoint opts w"
    using apiRequest_one_fetch by blast
  then show ?thesis using apiRequest_fixed_net_resolves[of e "net req" endpoint opts w] by simp
qed


text \<open>The upload body, outcome by outcome.\<close>

lemma upload_rejected:
  "fst (upload e (\<lambda>_. Rejected t) path fd w) = Inr (catch_envelope t)"
  "localStorage (snd (upload e (\<lambda>_. Rejected t) path fd w)) = localStorage w"
  "location_href (snd (upload e (\<lambda>_. Rejected t) path fd w)) = location_href w"
  by (simp_all add: upload_def js_defs Let_def)

lemma upload_unparseable:
  assumes "json_body r = Unparseable msg"
  shows "fst (upload e (\<lambda>_. Responded r) path fd w) = Inr (catch_envelope (ErrorObj msg))"
    and "localStorage (snd (upload e (\<lambda>_. Responded r) path fd w)) = localStorage w"
    and "location_href (snd (upload e (\<lambda>_. Responded r) path fd w)) = location_href w"
  using assms by (simp_all add: upload_def js_defs Let_def)

lemma upload_null:
  assumes "json_body r = Parsed JNull"
  shows "fst (upload e (\<lambda>_. Responded r) path fd w) =
           Inr (catch_envelope (ErrorObj (type_error_message ''null''
                  (if ok r then ''data'' else ''message''))))"
    and "localStorage (snd (upload e (\<lambda>_. Responded r) path fd w)) =
           (if \<not> ok r \<and> response.status r = 401
            then (localStorage w)(''adminToken'' := None, ''adminEmail'' := None)
            else localStorage w)"
    and "location_href (snd (upload e (\<lambda>_. Responded r) path fd w)) =
           (if \<not> ok r \<and> response.status r = 401 then ''/login'' else location_href w)"
  using assms by (simp_all add: upload_def js_defs Let_def)

lemma upload_failed:
  assumes "json_body r = Parsed d" "d \<noteq> JNull" "\<not> ok r"
  shows "fst (upload e (\<lambda>_. Responded r) path fd w) =
           Inr \<lparr>success = False, data = None,
                message = js_or (opt_prop (Some d) ''message'') (Some (JString ''Upload failed'')),
                error = opt_prop (Some d) ''error'', errors = None\<rparr>"
    and "localStorage (snd (upload e (\<lambda>_. Responded r) path fd w)) =
           (if response.status r = 401
            then (localStorage w)(''adminToken'' := None, ''adminEmail'' := None)
            else localStorage w)"
    and "location_href (snd (upload e (\<lambda>_. Responded r) path fd w)) =
           (if response.status r = 401 then ''/login'' else location_href w)"
  using assms by (simp_all add: upload_def js_defs Let_def get_prop_Some)

lemma upload_ok:
  assumes "json_body r = Parsed d" "d \<noteq> JNull" "ok r"
  shows "fst (upload e (\<lambda>_. Responded r) path fd w) =
           Inr \<lparr>success = True, data = opt_prop (Some d) ''data'',
                message = opt_prop (Some d) ''message'', error = None, errors = None\<rparr>"
    and "localStorage (snd (upload e (\<lambda>_. Responded r) path fd w)) = localStorage w"
    and "location_href (snd (upload e (\<lambda>_. Responded r) path fd w)) = location_href w"
  using assms by (simp_all add: upload_def js_defs Let_def get_prop_Some)

lemma upload_fixed_net_resolves:
  "\<exists>r. fst (upload e (\<lambda>_. x) path fd w) = Inr r \<and>
     well_formed (\<lambda>d. \<exists>rs b. x = Responded rs \<and> json_body rs = Parsed b \<and>
                    d = opt_prop (Some b) ''data'') r"
proof (cases x)
  case (Rejected t)
  then show ?thesis by (simp add: upload_rejected well_formed_catch)
next
  case (Responded r)
  show ?thesis
  proof (cases "json_body r")
    case (Unparseable msg)
    with Responded show ?thesis by (simp add: upload_unparseable well_formed_catch)
  next
    case (Parsed d)
    show ?thesis
    proof (cases "d = JNull")
      case True
      with Parsed Responded show ?thesis by (simp add: upload_null well_formed_catch)
    next
      case False
      with Parsed Responded show ?thesis
        by (cases "ok r") (simp_all add: upload_failed upload_ok well_formed_def js_or_Some)
    qed
  qed
qed

lemma upload_resolves:
  "\<exists>r. fst (upload e net path fd w) = Inr r \<and>
     well_formed (\<lambda>d. \<exists>req rs b. net req = Responded rs \<and> json_body rs = Parsed b \<and>
                    d = opt_prop (Some b) ''data'') r"
proof -
  obtain req where req: "upload e net path fd w = upload e (\<lambda>_. net req) path fd w"
    using upload_one_fetch by blast
  obtain r where r: "fst (upload e (\<lambda>_. net req) path fd w) = Inr r"
    "well_formed (\<lambda>d. \<exists>rs b. net req = Responded rs \<and> json_body rs = Parsed b \<and>
                    d = opt_prop (Some b) ''data'') r"
    using upload_fixed_net_resolves[of e "net req" path fd w] by auto
  from r(2) have "well_formed (\<lambda>d. \<exists>req rs b. net req = Responded rs \<and> json_body rs = Parsed b \<and>
                    d = opt_prop (Some b) ''data'') r"
    by (rule well_formed_mono) auto
  with r(1) req show ?thesis by simp
qed

text \<open>Login, outcome by outcome.\<close>

lemma truthy_opt_prop: "truthy (opt_prop (Some v) k) \<Longrightarrow> \<exists>kvs. v = JObject kvs"
  by (cases v) auto

lemma login_rejected:
  "fst (login e (\<lambda>_. Rejected t) email password w) = Inr (catch_envelope t)"
  "localStorage (snd (login e (\<lambda>_. Rejected t) email password w)) = localStorage w"
  by (simp_all add: login_def js_defs Let_def)

lemma login_unparseable:
  assumes "json_body r = Unparseable msg"
  shows "fst (login e (\<lambda>_. Responded r) email password w) = Inr (catch_envelope (ErrorObj msg))"
    and "localStorage (snd (login e (\<lambda>_. Responded r) email password w)) = localStorage w"
  using assms by (simp_all add: login_def js_defs Let_def)

lemma login_null:
  assumes "json_body r = Parsed JNull"
  shows "fst (login e (\<lambda>_. Responded r) email password w) =
           Inr (catch_envelope (ErrorObj (type_error_message ''null''
                  (if ok r then ''success'' else ''message''))))"
    and "localStorage (snd (login e (\<lambda>_. Responded r) email password w)) = localStorage w"
  using assms by (simp_all add: login_def login_failed_def js_defs Let_def)

lemma login_refused:
  assumes "json_body r = Parsed d" "d \<noteq> JNull" "\<not> ok r \<or> \<not> truthy (opt_prop (Some d) ''success'')"
  shows "fst (login e (\<lambda>_. Responded r) email password w) =
           Inr \<lparr>success = False, data = None,
                message = js_or (opt_prop (Some d) ''message'') (Some (JString ''Login failed'')),
                error = opt_prop (Some d) ''error'', errors = None\<rparr>"
    and "localStorage (snd (login e (\<lambda>_. Responded r) email password w)) = localStorage w"
  using assms by (auto simp add: login_def login_failed_def js_defs Let_def get_prop_Some)

lemma login_without_token:
  assumes "json_body r = Parsed d" "ok r" "truthy (opt_prop (Some d) ''success'')"
    and "\<not> truthy (opt_prop (opt_prop (Some d) ''data'') ''token'')"
  shows "fst (login e (\<lambda>_. Responded r) email password w) =
           Inr \<lparr>success = True, data = opt_prop (Some d) ''data'',
                message = opt_prop (Some d) ''message'', error = None, errors = None\<rparr>"
    and "localStorage (snd (login e (\<lambda>_. Responded r) email password w)) = localStorage w"
proof -
  from assms(3) have "d \<noteq> JNull" by auto
  with assms show
    "fst (login e (\<lambda>_. Responded r) email password w) =
           Inr \<lparr>success = True, data = opt_prop (Some d) ''data'',
                message = opt_prop (Some d) ''message'', error = None, errors = None\<rparr>"
    "localStorage (snd (login e (\<lambda>_. Responded r) email password w)) = localStorage w"
    by (simp_all add: login_def login_succeeded_def js_defs Let_def get_prop_Some)
qed

lemma login_stores:
  assumes "json_body r = Parsed d" "ok r" "truthy (opt_prop (Some d) ''success'')"
    and "opt_prop (Some d) ''data'' = Some dd" "truthy (opt_prop (Some dd) ''token'')"
    and "opt_prop (Some dd) ''admin'' = Some adm" "adm \<noteq> JNull"
  shows "fst (login e (\<lambda>_. Responded r) email password w) =
           Inr \<lparr>success = True, data = Some dd,
                message = opt_prop (Some d) ''message'', error = None, errors = None\<rparr>"
    and "localStorage (snd (login e (\<lambda>_. Responded r) email password w)) =
           (localStorage w)(''adminToken'' \<mapsto> to_string (opt_prop (Some dd) ''token''),
                             ''adminEmail'' \<mapsto> to_string (opt_prop (Some adm) ''email''))"
proof -
  from assms(3) have d: "d \<noteq> JNull" by auto
  obtain kvs where dd: "dd = JObject kvs"
    using truthy_opt_prop[OF assms(5)] by blast
  from assms d show
    "fst (login e (\<lambda>_. Responded r) email password w) =
           Inr \<lparr>success = True, data = Some dd,
                message = opt_prop (Some d) ''message'', error = None, errors = None\<rparr>"
    "localStorage (snd (login e (\<lambda>_. Responded r) email password w)) =
           (localStorage w)(''adminToken'' \<mapsto> to_string (opt_prop (Some dd) ''token''),
                             ''adminEmail'' \<mapsto> to_string (opt_prop (Some adm) ''email''))"
    unfolding dd
    by (simp_all add: login_def login_succeeded_def js_defs Let_def get_prop_Some)
qed

lemma login_token_only:
  assumes "json_body r = Parsed d" "ok r" "truthy (opt_prop (Some d) ''success'')"
    and "opt_prop (Some d) ''data'' = Some dd" "truthy (opt_prop (Some dd) ''token'')"
    and "opt_prop (Some dd) ''admin'' = None \<or> opt_prop (Some dd) ''admin'' = Some JNull"
  shows "fst (login e (\<lambda>_. Responded r) email password w) =
           Inr (catch_envelope (ErrorObj (type_error_message
                 (if opt_prop (Some dd) ''admin'' = None then ''undefined'' else ''null'')
                 ''email'')))"
    and "localStorage (snd (login e (\<lambda>_. Responded r) email password w)) =
           (localStorage w)(''adminToken'' \<mapsto> to_string (opt_prop (Some dd) ''token''))"
proof -
  from assms(3) have d: "d \<noteq> JNull" by auto
  obtain kvs where dd: "dd = JObject kvs"
    using truthy_opt_prop[OF assms(5)] by blast
  from assms d show
    "fst (login e (\<lambda>_. Responded r) email password w) =
           Inr (catch_envelope (ErrorObj (type_error_message
                 (if opt_prop (Some dd) ''admin'' = None then ''undefined'' else ''null'')
                 ''email'')))"
    "localStorage (snd (login e (\<lambda>_. Responded r) email password w)) =
           (localStorage w)(''adminToken'' \<mapsto> to_string (opt_prop (Some dd) ''token''))"
    unfolding dd
    by (auto simp add: login_def login_succeeded_def js_defs Let_def get_prop_Some)
qed

lemma login_fixed_net_resolves:
  "\<exists>r. fst (login e (\<lambda>_. x) email password w) = Inr r \<and>
     well_formed (\<lambda>d. \<exists>rs b. x = Responded rs \<and> json_body rs = Parsed b \<and>
                    d = opt_prop (Some b) ''data'') r"
proof (cases x)
  case (Rejected t)
  then show ?thesis by (simp add: login_rejected well_formed_catch)
next
  case (Responded r)
  show ?thesis
  proof (cases "json_body r")
    case (Unparseable msg)
    with Responded show ?thesis by (simp add: login_unparseable well_formed_catch)
  next
    case (Parsed d)
    show ?thesis
    proof (cases "d = JNull")
      case True
      with Parsed Responded show ?thesis by (simp add: login_null well_formed_catch)
    next
      case False
      show ?thesis
      proof (cases "\<not> ok r \<or> \<not> truthy (opt_prop (Some d) ''success'')")
        case True
        with False Parsed Responded show ?thesis
          by (simp add: login_refused well_formed_def js_or_Some)
      next
        case granted: False
        show ?thesis
        proof (cases "truthy (opt_prop (opt_prop (Some d) ''data'') ''token'')")
          case False
          with granted Parsed Responded show ?thesis
            by (simp add: login_without_token well_formed_def)
        next
          case True
          then obtain dd where dd: "opt_prop (Some d) ''data'' = Some dd"
            by (cases "opt_prop (Some d) ''data''") auto
          with True have tok: "truthy (opt_prop (Some dd) ''token'')" by simp
          show ?thesis
          proof (cases "opt_prop (Some dd) ''admin'' = None
                        \<or> opt_prop (Some dd) ''admin'' = Some JNull")
            case True
            with tok dd granted Parsed Responded show ?thesis
              using login_token_only(1)[of r d dd e email password w]
              by (simp add: well_formed_catch)
          next
            case False
            then obtain adm where "opt_prop (Some dd) ''admin'' = Some adm" "adm \<noteq> JNull"
              by auto
            with tok dd granted Parsed Responded show ?thesis
              using login_stores(1)[of r d dd adm e email password w]
              by (simp add: well_formed_def)
          qed
        qed
      qed
    qed
  qed
qed

lemma login_resolves:
  "\<exists>r. fst (login e net email password w) = Inr r \<and>
     well_formed (\<lambda>d. \<exists>req rs b. net req = Responded rs \<and> json_body rs = Parsed b \<and>
                    d = opt_prop (Some b) ''data'') r"
proof -
  obtain req where req: "login e net email password w = login e (\<lambda>_. net req) email password w"
    using login_one_fetch by blast
  obtain r where r: "fst (login e (\<lambda>_. net req) email password w) = Inr r"
    "well_formed (\<lambda>d. \<exists>rs b. net req = Responded rs \<and> json_body rs = Parsed b \<and>
                    d = opt_prop (Some b) ''data'') r"
    using login_fixed_net_resolves[of e "net req" email password w] by auto
  from r(2) have "well_formed (\<lambda>d. \<exists>req rs b. net req = Responded rs \<and> json_body rs = Parsed b \<and>
                    d = opt_prop (Some b) ''data'') r"
    by (rule well_formed_mono) auto
  with r(1) req show ?thesis by simp
qed

lemma logout_result:
  "logout w = (Inr \<lparr>success = True, data = None, message = None, error = None, errors = None\<rparr>,
               w\<lparr>localStorage := (localStorage w)(''adminToken'' := None, ''adminEmail'' := None)\<rparr>)"
  by (simp add: logout_def js_defs)

lemmas op_defs = me_def getProducts_def getProduct_def createProduct_def updateProduct_def
  updatePricing_def deleteProduct_def getCategories_def uploadImage_def uploadImages_def
  getOrders_def getStats_def getOrder_def updateStatus_def getUserOrders_def

lemma uri_unescaped_small: "uri_unescaped c = Some ch \<Longrightarrow> c < 256"
proof -
  assume "uri_unescaped c = Some ch"
  then have "of_char ch = c" by (auto simp: uri_unescaped_def find_Some_iff)
  moreover have "(of_char ch :: nat) mod 256 = of_char ch" by simp
  ultimately show ?thesis by (metis mod_less_divisor zero_less_numeral)
qed

lemma paired_surrogates_encodable:
  "paired_surrogates p \<Longrightarrow> \<exists>s. encodeURIComponent p = Inr s"
proof (induction p rule: paired_surrogates.induct)
  case 1
  then show ?case by simp
next
  case (2 c cs)
  show ?case
  proof (cases "high_surrogate c")
    case True
    with 2(3) obtain d ds where cs: "cs = d # ds" "low_surrogate d" "paired_surrogates ds"
      by (auto split: list.splits)
    with 2(1)[OF True cs(1)] obtain s where s: "encodeURIComponent ds = Inr s" by auto
    from True have "uri_unescaped c = None"
      using uri_unescaped_small[of c] by (cases "uri_unescaped c") (auto simp: high_surrogate_def)
    moreover from True have "\<not> low_surrogate c"
      by (simp add: high_surrogate_def low_surrogate_def)
    ultimately show ?thesis using True cs s by (simp add: prepend_def)
  next
    case False
    with 2(3) have nl: "\<not> low_surrogate c" and "paired_surrogates cs" by simp_all
    with 2(2)[OF False] obtain s where "encodeURIComponent cs = Inr s" by auto
    with False nl show ?thesis by (cases "uri_unescaped c") (simp_all add: prepend_def)
  qed
qed

lemma login_fixed_net_success:
  assumes "fst (login e (\<lambda>_. x) email password w) = Inr r" "success r"
    and "opt_prop (data r) ''token'' = Some (JString t)" "t \<noteq> []"
  shows "localStorage (snd (login e (\<lambda>_. x) email password w)) ''adminToken'' = Some t"
proof (cases x)
  case (Rejected th)
  with assms(1,2) show ?thesis by (auto simp add: login_rejected catch_envelope_def)
next
  case (Responded rs)
  note rs = Responded
  show ?thesis
  proof (cases "json_body rs")
    case (Unparseable msg)
    with rs assms(1,2) show ?thesis by (auto simp add: login_unparseable catch_envelope_def)
  next
    case (Parsed d)
    show ?thesis
    proof (cases "d = JNull")
      case True
      with Parsed rs assms(1,2) show ?thesis by (auto simp add: login_null catch_envelope_def)
    next
      case False
      show ?thesis
      proof (cases "\<not> ok rs \<or> \<not> truthy (opt_prop (Some d) ''success'')")
        case True
        with False Parsed rs assms(1,2) show ?thesis
          using login_refused(1)[of rs d e email password w] by auto
      next
        case granted: False
        show ?thesis
        proof (cases "truthy (opt_prop (opt_prop (Some d) ''data'') ''token'')")
          case False
          with granted Parsed rs assms show ?thesis
            using login_without_token(1)[of rs d e email password w] by auto
        next
          case True
          then obtain dd where dd: "opt_prop (Some d) ''data'' = Some dd"
            by (cases "opt_prop (Some d) ''data''") auto
          with True have tok: "truthy (opt_prop (Some dd) ''token'')" by simp
          show ?thesis
          proof (cases "opt_prop (Some dd) ''admin'' = None
                        \<or> opt_prop (Some dd) ''admin'' = Some JNull")
            case True
            with tok dd granted Parsed rs assms(1,2) show ?thesis
              using login_token_only(1)[of rs d dd e email password w]
              by (auto simp add: catch_envelope_def)
          next
            case False
            then obtain adm where adm: "opt_prop (Some dd) ''admin'' = Some adm" "adm \<noteq> JNull"
              by auto
            from tok dd granted Parsed rs adm assms(1) have "data r = Some dd"
              using login_stores(1)[of rs d dd adm e email password w] by auto
            with assms(3) have "to_string (opt_prop (Some dd) ''token'') = t" by simp
            with tok dd granted Parsed rs adm show ?thesis
              using login_stores(2)[of rs d dd adm e email password w] by simp
          qed
        qed
      qed
    qed
  qed
qed

lemma login_success_stores_token:
  assumes "fst (login e net email password w) = Inr r" "success r"
    and "opt_prop (data r) ''token'' = Some (JString t)" "t \<noteq> []"
  shows "localStorage (snd (login e net email password w)) ''adminToken'' = Some t"
proof -
  obtain req where "login e net email password w = login e (\<lambda>_. net req) email password w"
    using login_one_fetch by blast
  with assms show ?thesis
    using login_fixed_net_success[of e "net req" email password w r t] by simp
qed

lemma call_via_executor:
  assumes "via_executor op" "arguments_encodable op"
  shows "\<exists>endpoint opts. \<forall>net w. call e net op w = apiRequest e net endpoint opts w"
proof (cases op)
  case (DeleteImage p)
  with assms(2) obtain s where "encodeURIComponent p = Inr s"
    using paired_surrogates_encodable[of p] by auto
  with DeleteImage have
    "\<forall>net w. call e net op w =
       apiRequest e net (''/api/admin/upload/image/'' @ s) (no_options\<lparr>opt_method := Some ''DELETE''\<rparr>) w"
    by (simp add: deleteImage_def bind_def lift_def)
  then show ?thesis by (intro exI)
next
  case Me
  show ?thesis unfolding Me call.simps me_def by (intro exI allI) (rule refl)
next
  case (GetProducts params)
  show ?thesis unfolding GetProducts call.simps getProducts_def by (intro exI allI) (rule refl)
next
  case (GetProduct ident)
  show ?thesis unfolding GetProduct call.simps getProduct_def by (intro exI allI) (rule refl)
next
  case (CreateProduct d)
  show ?thesis unfolding CreateProduct call.simps createProduct_def by (intro exI allI) (rule refl)
next
  case (UpdateProduct ident d)
  show ?thesis unfolding UpdateProduct call.simps updateProduct_def by (intro exI allI) (rule refl)
next
  case (UpdatePricing ident d)
  show ?thesis unfolding UpdatePricing call.simps updatePricing_def by (intro exI allI) (rule refl)
next
  case (DeleteProduct ident)
  show ?thesis unfolding DeleteProduct call.simps deleteProduct_def by (intro exI allI) (rule refl)
next
  case GetCategories
  show ?thesis unfolding GetCategories call.simps getCategories_def by (intro exI allI) (rule refl)
next
  case (GetOrders params)
  show ?thesis unfolding GetOrders call.simps getOrders_def by (intro exI allI) (rule refl)
next
  case GetStats
  show ?thesis unfolding GetStats call.simps getStats_def by (intro exI allI) (rule refl)
next
  case (GetOrder ident)
  show ?thesis unfolding GetOrder call.simps getOrder_def by (intro exI allI) (rule refl)
next
  case (UpdateStatus ident st tracking)
  show ?thesis unfolding UpdateStatus call.simps updateStatus_def by (intro exI allI) (rule refl)
next
  case (GetUserOrders userId)
  show ?thesis unfolding GetUserOrders call.simps getUserOrders_def by (intro exI allI) (rule refl)
next
  case (Login email password)
  with assms(1) show ?thesis by (simp add: via_executor_def)
next
  case Logout
  with assms(1) show ?thesis by (simp add: via_executor_def)
next
  case (UploadImage f)
  with assms(1) show ?thesis by (simp add: via_executor_def)
next
  case (UploadImages files)
  with assms(1) show ?thesis by (simp add: via_executor_def)
qed

lemma unauthorized_parsed_ends_session:
  assumes "via_executor op \<or> (\<exists>f. op = UploadImage f) \<or> (\<exists>fs. op = UploadImages fs)"
    and "arguments_encodable op"
  shows "localStorage (snd (call e (replies 401 (Parsed d)) op w)) =
           (localStorage w)(''adminToken'' := None, ''adminEmail'' := None) \<and>
         location_href (snd (call e (replies 401 (Parsed d)) op w)) = ''/login'' \<and>
         (\<exists>r. fst (call e (replies 401 (Parsed d)) op w) = Inr r \<and> \<not> success r)"
proof (cases "via_executor op")
  case True
  then obtain endpoint opts where
    "call e (replies 401 (Parsed d)) op w = apiRequest e (replies 401 (Parsed d)) endpoint opts w"
    using call_via_executor[OF True assms(2), of e] by auto
  then show ?thesis
    by (cases "d = JNull")
       (simp_all add: replies_def apiRequest_null apiRequest_failed ok_def catch_envelope_def)
next
  case False
  with assms(1) have "(\<exists>f. op = UploadImage f) \<or> (\<exists>fs. op = UploadImages fs)" by simp
  then show ?thesis
    by (cases "d = JNull")
       (auto simp add: uploadImage_def uploadImages_def replies_def upload_null upload_failed
          ok_def catch_envelope_def)
qed

section \<open>Query strings: where a field name can stand before an equals sign\<close>














lemma key_names_plain:
  "urlencode ''page'' = ''page''" "urlencode ''limit'' = ''limit''"
  "urlencode ''search'' = ''search''" "urlencode ''category'' = ''category''"
  "urlencode ''status'' = ''status''" "urlencode ''sortBy'' = ''sortBy''"
  "urlencode ''sortOrder'' = ''sortOrder''" "urlencode ''startDate'' = ''startDate''"
  "urlencode ''endDate'' = ''endDate''"
  by (simp_all add: urlencode_def urlencode_byte_def alnum_def)




























section \<open>Claims\<close>

text \<open>
  C1 (as amended). Every call of every operation, for every network behaviour and every
  browser state, resolves to an envelope and never throws, provided the identifier of a
  deleteImage call has no unpaired surrogate. The envelope is either a success with no
  error fields or a failure with a message and no data. A success of an operation routed
  through the request executor always carries data; a success of Logout carries none; a
  success of Login or of an upload carries the \<open>data\<close> field of the parsed response body,
  which may be absent.
\<close>

theorem call_resolves:
  "arguments_encodable op \<Longrightarrow>
   \<exists>r. fst (call e net op w) = Inr r \<and>
     well_formed
       (\<lambda>d. if via_executor op then d \<noteq> None
            else if op = Logout then d = None
            else \<exists>req rs b. net req = Responded rs \<and> json_body rs = Parsed b \<and>
                             d = opt_prop (Some b) ''data'') r"
proof (cases "via_executor op")
  case True
  assume "arguments_encodable op"
  with True obtain endpoint opts where
    "call e net op w = apiRequest e net endpoint opts w"
    using call_via_executor[of op e] by auto
  with True show ?thesis
    using apiRequest_resolves[of e net endpoint opts w] by simp
next
  case False
  then show ?thesis
  proof (cases op)
    case Logout
    then show ?thesis by (simp add: logout_result well_formed_def via_executor_def)
  next
    case (Login email password)
    then show ?thesis
      using login_resolves[of e net email password w] by (simp add: via_executor_def)
  next
    case (UploadImage f)
    then show ?thesis
      using upload_resolves[of e net "''/api/admin/upload/image''" "[(''image'', f)]" w]
      by (simp add: via_executor_def uploadImage_def)
  next
    case (UploadImages files)
    then show ?thesis
      using upload_resolves[of e net "''/api/admin/upload/images''"
          "map (\<lambda>f. (''images'', f)) files" w]
      by (simp add: via_executor_def uploadImages_def)
  qed (simp_all add: via_executor_def)
qed

theorem call_resolves_witness:
  "arguments_encodable (DeleteImage [97, 47, 98]) \<and> via_executor (DeleteImage [97, 47, 98]) \<and>
   fst (call env_production (replies 200 (Parsed (JObject [(''success'', JBool True)])))
          (DeleteImage [97, 47, 98]) signed_in)
     = Inr \<lparr>success = True, data = Some (JObject [(''success'', JBool True)]), message = None,
            error = None, errors = None\<rparr> \<and>
   map url (requests (snd (call env_production
          (replies 200 (Parsed (JObject [(''success'', JBool True)])))
          (DeleteImage [97, 47, 98]) signed_in)))
     = [''/api/admin/upload/image/a%2Fb'']"
proof -
  have enc: "encodeURIComponent [97, 47, 98] = Inr ''a%2Fb''"
    by (simp add: uri_unescaped_def uri_unescaped_chars_def prepend_def high_surrogate_def
          low_surrogate_def percent_utf8_def utf8_def percent_octet_def hex_digit_def)
  have ok: "arguments_encodable (DeleteImage [97, 47, 98])"
    by (simp add: high_surrogate_def low_surrogate_def)
  have ve: "via_executor (DeleteImage [97, 47, 98])"
    by (simp add: via_executor_def)
  have del: "call env_production (replies 200 (Parsed (JObject [(''success'', JBool True)])))
          (DeleteImage [97, 47, 98]) signed_in =
       apiRequest env_production (replies 200 (Parsed (JObject [(''success'', JBool True)])))
          ''/api/admin/upload/image/a%2Fb'' (no_options\<lparr>opt_method := Some ''DELETE''\<rparr>) signed_in"
    unfolding call.simps deleteImage_def enc by (simp add: bind_def lift_def)
  have res: "fst (call env_production (replies 200 (Parsed (JObject [(''success'', JBool True)])))
          (DeleteImage [97, 47, 98]) signed_in)
     = Inr \<lparr>success = True, data = Some (JObject [(''success'', JBool True)]), message = None,
            error = None, errors = None\<rparr>"
    unfolding del by (simp add: replies_def apiRequest_ok ok_def js_or_def)
  have sent: "map url (requests (snd (call env_production
          (replies 200 (Parsed (JObject [(''success'', JBool True)])))
          (DeleteImage [97, 47, 98]) signed_in)))
     = [''/api/admin/upload/image/a%2Fb'']"
    unfolding del
    by (simp add: apiRequest_def js_defs Let_def replies_def signed_in_def
          API_URL_def env_production_def str_or_def ok_def no_options_def)
  show ?thesis
    using call_resolves [OF ok, of env_production
        "replies 200 (Parsed (JObject [(''success'', JBool True)]))" signed_in]
    by - (intro conjI, (rule ok ve res sent)+)
qed

text \<open>
  C1 as stated fails at Logout, whose envelope is a success without data and so neither
  success-with-data nor failure-with-message, and at a deleteImage whose identifier is a
  lone surrogate: \<open>encodeURIComponent\<close> throws outside any \<open>try\<close>, the call throws to its
  caller and no request is made.
\<close>

theorem logout_envelope_counterexample:
  "fst (call env_production offline Logout signed_in)
     = Inr \<lparr>success = True, data = None, message = None, error = None, errors = None\<rparr> \<and>
   \<not> success_with_data \<lparr>success = True, data = None, message = None, error = None, errors = None\<rparr> \<and>
   \<not> failure_with_message \<lparr>success = True, data = None, message = None, error = None, errors = None\<rparr> \<and>
   fst (call env_production offline (DeleteImage [0xD800]) signed_in)
     = Inl (ErrorObj ''URI malformed'') \<and>
   requests (snd (call env_production offline (DeleteImage [0xD800]) signed_in)) = []"
proof -
  have enc: "encodeURIComponent [0xD800] = Inl (ErrorObj ''URI malformed'')"
    by (simp add: uri_unescaped_def uri_unescaped_chars_def high_surrogate_def low_surrogate_def
          URIError_def)
  have thrown: "fst (call env_production offline (DeleteImage [0xD800]) signed_in)
       = Inl (ErrorObj ''URI malformed'') \<and>
     requests (snd (call env_production offline (DeleteImage [0xD800]) signed_in)) = []"
    unfolding call.simps deleteImage_def enc by (simp add: bind_def lift_def signed_in_def)
  show ?thesis
    using thrown
    by (simp add: logout_result success_with_data_def failure_with_message_def)
qed

text \<open>
  C2. A 401 answer is meant to clear both storage entries and redirect to the login
  route. When the 401 answer's body is not JSON, \<open>response.json()\<close> rejects before the
  status is looked at: the executor returns a failure envelope, both entries are still
  in storage and the location is unchanged.
\<close>

theorem unauthorized_unparseable_keeps_session:
  "fst (call env_production (replies 401 (Unparseable ''Unexpected end of JSON input'')) GetStats signed_in) =
     Inr \<lparr>success = False, data = None,
          message = Some (JString ''Unexpected end of JSON input''),
          error = Some (JString ''Network error''), errors = None\<rparr> \<and>
   localStorage (snd (call env_production (replies 401 (Unparseable ''Unexpected end of JSON input'')) GetStats signed_in)) ''adminToken''
     = Some ''t0'' \<and>
   localStorage (snd (call env_production (replies 401 (Unparseable ''Unexpected end of JSON input'')) GetStats signed_in)) ''adminEmail''
     = Some ''admin@example.com'' \<and>
   location_href (snd (call env_production (replies 401 (Unparseable ''Unexpected end of JSON input'')) GetStats signed_in))
     = ''/dashboard''"
  by (simp add: getStats_def replies_def apiRequest_unparseable catch_envelope_def signed_in_def)

text \<open>
  C3 (as amended). When the transport fails, every operation that fetches (all but
  Logout and a deleteImage that throws before its request) returns a
  failure envelope whose \<open>error\<close> field is the fixed text "Network error" and whose
  message is the thrown Error's own message; the message is the fixed "Network error"
  only when the thrown value is not an Error.
\<close>

theorem transport_failure_envelope:
  "op \<noteq> Logout \<Longrightarrow> arguments_encodable op \<Longrightarrow>
   fst (call e (\<lambda>_. Rejected t) op w) =
     Inr \<lparr>success = False, data = None,
          message = Some (JString (case t of ErrorObj m \<Rightarrow> m | OtherThrown \<Rightarrow> ''Network error'')),
          error = Some (JString ''Network error''), errors = None\<rparr>"
proof (cases "via_executor op")
  case True
  assume "arguments_encodable op"
  with True obtain endpoint opts where
    "call e (\<lambda>_. Rejected t) op w = apiRequest e (\<lambda>_. Rejected t) endpoint opts w"
    using call_via_executor[of op e] by auto
  then show ?thesis by (simp add: apiRequest_rejected catch_envelope_def)
next
  case False
  assume "op \<noteq> Logout"
  with False show ?thesis
    by (cases op)
       (simp_all add: via_executor_def uploadImage_def uploadImages_def upload_rejected
          login_rejected catch_envelope_def)
qed

theorem transport_failure_envelope_witness:
  "GetOrders None \<noteq> Logout \<and> arguments_encodable (GetOrders None) \<and>
   fst (call env_production (\<lambda>_. Rejected OtherThrown) (GetOrders None) signed_in) =
     Inr \<lparr>success = False, data = None, message = Some (JString ''Network error''),
          error = Some (JString ''Network error''), errors = None\<rparr>"
  using transport_failure_envelope [of "GetOrders None" env_production OtherThrown signed_in]
  by simp

text \<open>
  C3 as stated fails when \<open>fetch\<close> rejects with an Error, as it does on a network
  outage: the message is the Error's, not "Network error".
\<close>

theorem network_outage_message_counterexample:
  "fst (call env_production offline (GetOrders None) signed_in) =
     Inr \<lparr>success = False, data = None, message = Some (JString ''Failed to fetch''),
          error = Some (JString ''Network error''), errors = None\<rparr> \<and>
   Some (JString ''Failed to fetch'') \<noteq> Some (JString ''Network error'')"
  by (simp add: getOrders_def offline_def apiRequest_rejected catch_envelope_def)

text \<open>
  C4 (as amended). For a non-2xx response whose body fails to parse as JSON, the
  executor does not propagate the parse exception: its catch clause turns it into a
  failure envelope whose message is the parse error's message and whose \<open>error\<close> field
  is "Network error", with no \<open>errors\<close> field.
\<close>

theorem unparseable_body_envelope:
  "\<not> ok r \<Longrightarrow> json_body r = Unparseable msg \<Longrightarrow>
   fst (apiRequest e (\<lambda>_. Responded r) endpoint opts w) =
     Inr \<lparr>success = False, data = None, message = Some (JString msg),
          error = Some (JString ''Network error''), errors = None\<rparr>"
  by (simp add: apiRequest_unparseable catch_envelope_def)

theorem unparseable_body_envelope_witness:
  "\<not> ok \<lparr>status = 502, json_body = Unparseable ''Unexpected token <''\<rparr> \<and>
   json_body \<lparr>status = 502, json_body = Unparseable ''Unexpected token <''\<rparr>
     = Unparseable ''Unexpected token <'' \<and>
   fst (apiRequest env_production
          (\<lambda>_. Responded \<lparr>status = 502, json_body = Unparseable ''Unexpected token <''\<rparr>)
          ''/api/admin/orders/stats'' no_options signed_in) =
     Inr \<lparr>success = False, data = None, message = Some (JString ''Unexpected token <''),
          error = Some (JString ''Network error''), errors = None\<rparr>"
  using unparseable_body_envelope [of "\<lparr>status = 502, json_body = Unparseable ''Unexpected token <''\<rparr>"
      "''Unexpected token <''" env_production "''/api/admin/orders/stats''" no_options signed_in]
  by (simp add: ok_def)

text \<open>
  C4 as stated fails: the envelope for an unparseable 502 body is not the envelope for
  the empty object.
\<close>

theorem unparseable_body_counterexample:
  "fst (apiRequest env_production (replies 502 (Unparseable ''Unexpected token <''))
          ''/api/admin/orders/stats'' no_options signed_in) =
     Inr \<lparr>success = False, data = None, message = Some (JString ''Unexpected token <''),
          error = Some (JString ''Network error''), errors = None\<rparr> \<and>
   fst (apiRequest env_production (replies 502 (Parsed (JObject [])))
          ''/api/admin/orders/stats'' no_options signed_in) =
     Inr \<lparr>success = False, data = None, message = Some (JString ''Request failed''),
          error = None, errors = None\<rparr>"
  by (simp add: replies_def apiRequest_unparseable apiRequest_failed catch_envelope_def ok_def
        js_or_def)

text \<open>
  C5 (as amended). For a 2xx response whose body parses to a JSON value other than
  \<open>null\<close>, the executor returns a success envelope whose payload is the body's \<open>data\<close>
  field when that field is truthy, and the whole parsed body otherwise, also when the
  field is present with a falsy value.
\<close>

theorem success_payload:
  "ok r \<Longrightarrow> json_body r = Parsed d \<Longrightarrow> d \<noteq> JNull \<Longrightarrow>
   fst (apiRequest e (\<lambda>_. Responded r) endpoint opts w) =
     Inr \<lparr>success = True,
          data = (if truthy (opt_prop (Some d) ''data'') then opt_prop (Some d) ''data'' else Some d),
          message = opt_prop (Some d) ''message'', error = None, errors = None\<rparr>"
  by (simp add: apiRequest_ok js_or_def)

theorem success_payload_witness:
  "ok \<lparr>status = 200, json_body = Parsed (JObject [(''data'', JArray [JString ''Burs''])])\<rparr> \<and>
   JObject [(''data'', JArray [JString ''Burs''])] \<noteq> JNull \<and>
   fst (apiRequest env_production
          (\<lambda>_. Responded \<lparr>status = 200,
                  json_body = Parsed (JObject [(''data'', JArray [JString ''Burs''])])\<rparr>)
          ''/api/admin/products/categories/list'' no_options signed_in) =
     Inr \<lparr>success = True, data = Some (JArray [JString ''Burs'']), message = None,
          error = None, errors = None\<rparr>"
  using success_payload [of "\<lparr>status = 200,
        json_body = Parsed (JObject [(''data'', JArray [JString ''Burs''])])\<rparr>"
      "JObject [(''data'', JArray [JString ''Burs''])]"
      env_production "''/api/admin/products/categories/list''" no_options signed_in]
  by (simp add: ok_def)

text \<open>
  C5 as stated fails when the \<open>data\<close> field is present and falsy (the payload is then
  the whole body, not the field), and when the body is \<open>null\<close> (no success envelope).
\<close>

theorem falsy_data_field_counterexample:
  "opt_prop (Some (JObject [(''success'', JBool True), (''data'', JNumber 0)])) ''data''
     = Some (JNumber 0) \<and>
   fst (apiRequest env_production
          (replies 200 (Parsed (JObject [(''success'', JBool True), (''data'', JNumber 0)])))
          ''/api/admin/orders/stats'' no_options signed_in) =
     Inr \<lparr>success = True,
          data = Some (JObject [(''success'', JBool True), (''data'', JNumber 0)]),
          message = None, error = None, errors = None\<rparr> \<and>
   fst (apiRequest env_production (replies 200 (Parsed JNull))
          ''/api/admin/orders/stats'' no_options signed_in) =
     Inr \<lparr>success = False, data = None,
          message = Some (JString (type_error_message ''null'' ''data'')),
          error = Some (JString ''Network error''), errors = None\<rparr>"
  by (simp add: replies_def apiRequest_ok apiRequest_null ok_def js_or_def catch_envelope_def)

text \<open>
  C6. Login writes the token before it reads \<open>data.data.admin.email\<close>. A 2xx reply with
  \<open>success\<close> and a token but no \<open>admin\<close> makes that read throw after the token is stored:
  Login returns a failure envelope and the token stays in storage, without an email.
\<close>

theorem login_token_without_admin:
  "fst (login env_production token_only_reply ''admin@example.com'' ''secret'' signed_out) =
     Inr \<lparr>success = False, data = None,
          message = Some (JString (type_error_message ''undefined'' ''email'')),
          error = Some (JString ''Network error''), errors = None\<rparr> \<and>
   localStorage signed_out ''adminToken'' = None \<and>
   localStorage (snd (login env_production token_only_reply ''admin@example.com'' ''secret'' signed_out))
     ''adminToken'' = Some ''abc'' \<and>
   localStorage (snd (login env_production token_only_reply ''admin@example.com'' ''secret'' signed_out))
     ''adminEmail'' = None"
  using login_token_only [of "\<lparr>status = 200, json_body = Parsed (JObject [(''success'', JBool True),
                                   (''data'', JObject [(''token'', JString ''abc'')])])\<rparr>"
      "JObject [(''success'', JBool True), (''data'', JObject [(''token'', JString ''abc'')])]"
      "JObject [(''token'', JString ''abc'')]" env_production "''admin@example.com''" "''secret''" signed_out]
  by (simp add: token_only_reply_def replies_def ok_def catch_envelope_def signed_out_def)

text \<open>
  C7. In a production build with no configured URL the executor's base URL is empty
  (same-origin proxy), but Login resolves its own base URL without looking at the build
  mode and posts to the local fallback.
\<close>

theorem login_url_in_production:
  "API_URL env_production = [] \<and>
   map url (requests (snd (call env_production offline GetStats signed_out)))
     = [''/api/admin/orders/stats''] \<and>
   map url (requests (snd (call env_production offline (Login ''admin@example.com'' ''secret'') signed_out)))
     = [''http://localhost:3000/api/admin/auth/login'']"
  by (simp add: API_URL_def str_or_def env_production_def getStats_def apiRequest_def login_def
        js_defs Let_def offline_def signed_out_def no_options_def)



text \<open>
  C9 (as amended). \<open>isAuthenticated\<close> reads storage only and is true iff the entry
  \<open>adminToken\<close> exists and is not empty. It is true right after a Login that returns a
  success envelope whose data carries a non-empty string token. Logout always returns a
  success envelope, leaves neither entry in storage, makes \<open>isAuthenticated\<close> false, and
  changes nothing when both entries are already absent.
\<close>

theorem isAuthenticated_login_logout:
  "(isAuthenticated w \<longleftrightarrow> (\<exists>t. localStorage w ''adminToken'' = Some t \<and> t \<noteq> [])) \<and>
   (fst (login e net email password w) = Inr r \<and> success r \<and>
      opt_prop (data r) ''token'' = Some (JString t) \<and> t \<noteq> []
      \<longrightarrow> isAuthenticated (snd (login e net email password w))) \<and>
   fst (logout w) = Inr \<lparr>success = True, data = None, message = None, error = None, errors = None\<rparr> \<and>
   localStorage (snd (logout w)) ''adminToken'' = None \<and>
   localStorage (snd (logout w)) ''adminEmail'' = None \<and>
   \<not> isAuthenticated (snd (logout w)) \<and>
   (localStorage w ''adminToken'' = None \<and> localStorage w ''adminEmail'' = None
      \<longrightarrow> localStorage (snd (logout w)) = localStorage w)"
proof -
  have a: "isAuthenticated w \<longleftrightarrow> (\<exists>t. localStorage w ''adminToken'' = Some t \<and> t \<noteq> [])"
    by (cases "localStorage w ''adminToken''") (simp_all add: isAuthenticated_def)
  have b: "fst (login e net email password w) = Inr r \<and> success r \<and>
      opt_prop (data r) ''token'' = Some (JString t) \<and> t \<noteq> []
      \<longrightarrow> isAuthenticated (snd (login e net email password w))"
    using login_success_stores_token[of e net email password w r t]
    by (auto simp add: isAuthenticated_def)
  have c: "localStorage w ''adminToken'' = None \<and> localStorage w ''adminEmail'' = None
      \<longrightarrow> localStorage (snd (logout w)) = localStorage w"
    by (auto simp add: logout_result)
  from a b c show ?thesis by (simp add: logout_result isAuthenticated_def)
qed

theorem isAuthenticated_login_logout_witness:
  "fst (login env_production login_reply ''admin@example.com'' ''secret'' signed_out) =
     Inr \<lparr>success = True,
          data = Some (JObject [(''token'', JString ''abc''),
            (''admin'', JObject [(''id'', JString ''1''), (''email'', JString ''admin@example.com''),
                                 (''role'', JString ''admin'')])]),
          message = None, error = None, errors = None\<rparr> \<and>
   isAuthenticated (snd (login env_production login_reply ''admin@example.com'' ''secret'' signed_out)) \<and>
   \<not> isAuthenticated signed_out \<and>
   localStorage signed_out ''adminToken'' = None \<and> localStorage signed_out ''adminEmail'' = None \<and>
   localStorage (snd (logout signed_out)) = localStorage signed_out"
proof -
  have r: "fst (login env_production login_reply ''admin@example.com'' ''secret'' signed_out) =
     Inr \<lparr>success = True,
          data = Some (JObject [(''token'', JString ''abc''),
            (''admin'', JObject [(''id'', JString ''1''), (''email'', JString ''admin@example.com''),
                                 (''role'', JString ''admin'')])]),
          message = None, error = None, errors = None\<rparr>"
    by (simp add: login_reply_def replies_def login_def login_succeeded_def js_defs ok_def)
  have s: "localStorage signed_out ''adminToken'' = None \<and> localStorage signed_out ''adminEmail'' = None"
    by (simp add: signed_out_def)
  show ?thesis
    using r s isAuthenticated_login_logout [of signed_out env_production login_reply
        "''admin@example.com''" "''secret''"
        "\<lparr>success = True,
          data = Some (JObject [(''token'', JString ''abc''),
            (''admin'', JObject [(''id'', JString ''1''), (''email'', JString ''admin@example.com''),
                                 (''role'', JString ''admin'')])]),
          message = None, error = None, errors = None\<rparr>" "''abc''"]
    by simp
qed

text \<open>
  C9 as stated fails: a Login that returns a success envelope for a reply without a
  token leaves \<open>isAuthenticated\<close> false, and an \<open>adminToken\<close> entry holding the empty
  string is present in storage while \<open>isAuthenticated\<close> is false.
\<close>

theorem login_success_unauthenticated_counterexample:
  "fst (login env_production tokenless_reply ''admin@example.com'' ''secret'' signed_out) =
     Inr \<lparr>success = True, data = None, message = None, error = None, errors = None\<rparr> \<and>
   \<not> isAuthenticated (snd (login env_production tokenless_reply ''admin@example.com'' ''secret'' signed_out)) \<and>
   localStorage empty_token ''adminToken'' = Some [] \<and>
   \<not> isAuthenticated empty_token"
  by (simp add: tokenless_reply_def replies_def login_def login_succeeded_def js_defs ok_def
        isAuthenticated_def signed_out_def empty_token_def)

text \<open>
  C10. Outside the three listed paths storage should not change. A Login whose reply
  has a token but no \<open>admin\<close> ends in the catch clause with a failure envelope, having
  replaced the stored token and left the stored email as it was.
\<close>

theorem failed_login_replaces_token_only:
  "(\<exists>r. fst (call env_production token_only_reply (Login ''admin@example.com'' ''secret'') signed_in) = Inr r \<and> \<not> success r) \<and>
   localStorage signed_in ''adminToken'' = Some ''t0'' \<and>
   localStorage (snd (call env_production token_only_reply (Login ''admin@example.com'' ''secret'') signed_in))
     ''adminToken'' = Some ''abc'' \<and>
   localStorage (snd (call env_production token_only_reply (Login ''admin@example.com'' ''secret'') signed_in))
     ''adminEmail'' = localStorage signed_in ''adminEmail''"
  using login_token_only [of "\<lparr>status = 200, json_body = Parsed (JObject [(''success'', JBool True),
                                   (''data'', JObject [(''token'', JString ''abc'')])])\<rparr>"
      "JObject [(''success'', JBool True), (''data'', JObject [(''token'', JString ''abc'')])]"
      "JObject [(''token'', JString ''abc'')]" env_production "''admin@example.com''" "''secret''" signed_in]
  by (simp add: token_only_reply_def replies_def ok_def catch_envelope_def signed_in_def)

end
